theory Spec2Isabelle
  imports Main
begin

section \<open>JavaScript values\<close>

text \<open>
  The values that cross the boundary of \<^verbatim>\<open>src/index.ts\<close>: what a promise rejects with,
  what is handed to \<^verbatim>\<open>console.error\<close>, and the arguments of a tool call.
  \<open>JsError m\<close> stands for any object that is an \<^verbatim>\<open>instanceof Error\<close>, with \<open>m\<close> its
  \<^verbatim>\<open>message\<close> property; \<open>JsObject\<close> is an object that is not an instance of
  \<^verbatim>\<open>Error\<close>, given by its own properties.
\<close>

datatype js_value =
    JsUndefined
  | JsNull
  | JsBoolean bool
  | JsNumber int
  | JsString string
  | JsError string
  | JsObject "(string \<times> js_value) list"


text \<open>
  \<^verbatim>\<open>a || b\<close> on a value that is a string or \<^verbatim>\<open>undefined\<close> (\<open>None\<close>): the left operand
  is taken when it is truthy, that is a non-empty string.
\<close>

fun js_or :: "string option \<Rightarrow> string \<Rightarrow> string" where
  "js_or None b = b"
| "js_or (Some a) b = (if a = [] then b else a)"

section \<open>The process and its observable effects\<close>

text \<open>The request object passed to \<^verbatim>\<open>openai.responses.create\<close>.\<close>

record tool_descriptor =
  tool_type :: string
  search_context_size :: string

record reasoning_options =
  effort :: string

record request =
  model :: string
  input :: string
  tools :: "tool_descriptor list"
  tool_choice :: string
  parallel_tool_calls :: bool
  reasoning :: reasoning_options

datatype effect =
    EnvRead string
  | ConsoleLog "js_value list"
  | ConsoleError "js_value list"
  | UpstreamCall request
  | SetTimeout "int option"
  | ClearTimeout
  | TransportClose
  | ProcessExit nat

text \<open>
  The state of the process: whether the timer behind \<^verbatim>\<open>timeoutHandle\<close> can still
  fire, how many \<^verbatim>\<open>transport.close()\<close> promises are awaited, the exit code once
  the process has ended, and the trace of effects in the order they happened.
\<close>

record proc =
  timer_armed :: bool
  pending_close :: nat
  exit_code :: "nat option"
  effects :: "effect list"

definition emit :: "effect \<Rightarrow> proc \<Rightarrow> proc" where
  "emit e s = s\<lparr>effects := effects s @ [e]\<rparr>"

definition console_log :: "js_value list \<Rightarrow> proc \<Rightarrow> proc" where
  "console_log args s = emit (ConsoleLog args) s"

definition console_error :: "js_value list \<Rightarrow> proc \<Rightarrow> proc" where
  "console_error args s = emit (ConsoleError args) s"

section \<open>Configuration\<close>

text \<open>
  \<^verbatim>\<open>parseInt(s)\<close> with no radix: leading white space is skipped, one sign is read, a
  \<^verbatim>\<open>0x\<close> prefix selects radix 16, and the longest prefix of digits is the value; no digit
  gives \<^verbatim>\<open>NaN\<close>, which is \<open>None\<close> here. Strings are byte strings, so only the ASCII
  white space is skipped, and the result is the exact integer (the runtime rounds beyond
  \<open>2 ^ 53\<close>).
\<close>

definition is_white_space :: "char \<Rightarrow> bool" where
  "is_white_space c = ((of_char c :: nat) \<in> {9, 10, 11, 12, 13, 32})"

definition digit_value :: "nat \<Rightarrow> char \<Rightarrow> nat option" where
  "digit_value radix c =
     (let n = (of_char c :: nat);
          d = (if 48 \<le> n \<and> n \<le> 57 then Some (n - 48)
               else if 97 \<le> n \<and> n \<le> 122 then Some (n - 87)
               else if 65 \<le> n \<and> n \<le> 90 then Some (n - 55)
               else None)
      in case d of None \<Rightarrow> None | Some v \<Rightarrow> (if v < radix then Some v else None))"

fun parse_digits :: "nat \<Rightarrow> string \<Rightarrow> nat \<Rightarrow> nat" where
  "parse_digits radix [] acc = acc"
| "parse_digits radix (c # cs) acc =
     (case digit_value radix c of
        None \<Rightarrow> acc
      | Some v \<Rightarrow> parse_digits radix cs (acc * radix + v))"

definition parse_radix :: "nat \<Rightarrow> string \<Rightarrow> nat option" where
  "parse_radix radix s =
     (case s of
        [] \<Rightarrow> None
      | c # cs \<Rightarrow> (case digit_value radix c of
                     None \<Rightarrow> None
                   | Some v \<Rightarrow> Some (parse_digits radix s 0)))"

definition strip_hex_prefix :: "string \<Rightarrow> (nat \<times> string)" where
  "strip_hex_prefix s =
     (case s of
        c # d # rest \<Rightarrow>
          (if c = CHR ''0'' \<and> (d = CHR ''x'' \<or> d = CHR ''X'') then (16, rest) else (10, s))
      | _ \<Rightarrow> (10, s))"

definition parseInt :: "string \<Rightarrow> int option" where
  "parseInt str =
     (let s = dropWhile is_white_space str;
          negative = (case s of c # _ \<Rightarrow> c = CHR ''-'' | [] \<Rightarrow> False);
          s1 = (case s of c # cs \<Rightarrow> (if c = CHR ''-'' \<or> c = CHR ''+'' then cs else s) | [] \<Rightarrow> s);
          (radix, s2) = strip_hex_prefix s1
      in case parse_radix radix s2 of
           None \<Rightarrow> None
         | Some n \<Rightarrow> Some (if negative then - int n else int n))"

text \<open>
  The module constant \<^verbatim>\<open>config\<close>. The two tiers are cast to a union of three literals
  in the source, which checks nothing at run time: they hold whatever string the
  environment holds.
\<close>

record config =
  apiKey :: "string option"
  maxRetries :: "int option"
  timeout :: "int option"
  searchContextSize :: string
  reasoningEffort :: string
  processTimeout :: "int option"

type_synonym env = "string \<rightharpoonup> string"

text \<open>\<^verbatim>\<open>process.env.NAME\<close>: the value, or \<^verbatim>\<open>undefined\<close> when the variable is unset.\<close>

definition env_get :: "env \<Rightarrow> string \<Rightarrow> proc \<Rightarrow> string option \<times> proc" where
  "env_get process_env name s = (process_env name, emit (EnvRead name) s)"

definition read_config :: "env \<Rightarrow> proc \<Rightarrow> config \<times> proc" where
  "read_config process_env s0 =
     (let (key, s1) = env_get process_env ''OPENAI_API_KEY'' s0;
          (retries, s2) = env_get process_env ''OPENAI_MAX_RETRIES'' s1;
          (api_timeout, s3) = env_get process_env ''OPENAI_API_TIMEOUT'' s2;
          (context_size, s4) = env_get process_env ''SEARCH_CONTEXT_SIZE'' s3;
          (reasoning_effort, s5) = env_get process_env ''REASONING_EFFORT'' s4;
          (process_timeout, s6) = env_get process_env ''PROCESS_TIMEOUT'' s5
      in (\<lparr> apiKey = key,
             maxRetries = parseInt (js_or retries ''3''),
             timeout = parseInt (js_or api_timeout ''60000''),
             searchContextSize = js_or context_size ''medium'',
             reasoningEffort = js_or reasoning_effort ''medium'',
             processTimeout = parseInt (js_or process_timeout ''300000'') \<rparr>,
          s6))"

section \<open>The invocation handler\<close>

text \<open>
  The upstream service is outside the program. A call settles in one of two ways: the
  promise resolves with a response, whose \<^verbatim>\<open>output_text\<close> is a string or absent, or it
  rejects with a value. The client is a function from the request to the way its call
  settles.
\<close>

record response =
  output_text :: "string option"

datatype upstream_outcome = Resolves response | Rejects js_value

type_synonym upstream = "request \<Rightarrow> upstream_outcome"

record content_item =
  item_type :: string
  item_text :: string

record tool_response =
  content :: "content_item list"

text \<open>
  A computation that may throw: \<open>Inl\<close> carries the thrown value. \<open>try_catch\<close> runs the
  body and hands a thrown value to the handler, in the state the body left.
\<close>

type_synonym 'a js = "proc \<Rightarrow> (js_value + 'a) \<times> proc"

definition try_catch :: "'a js \<Rightarrow> (js_value \<Rightarrow> 'a js) \<Rightarrow> 'a js" where
  "try_catch body catch s =
     (case body s of
        (Inr v, s1) \<Rightarrow> (Inr v, s1)
      | (Inl error, s1) \<Rightarrow> catch error s1)"

definition responses_create :: "upstream \<Rightarrow> request \<Rightarrow> response js" where
  "responses_create openai req s =
     (case openai req of
        Resolves r \<Rightarrow> (Inr r, emit (UpstreamCall req) s)
      | Rejects v \<Rightarrow> (Inl v, emit (UpstreamCall req) s))"

definition build_request :: "config \<Rightarrow> string \<Rightarrow> request" where
  "build_request cfg inp =
     \<lparr> model = ''o3'',
       input = inp,
       tools = [\<lparr> tool_type = ''web_search_preview'',
                  search_context_size = searchContextSize cfg \<rparr>],
       tool_choice = ''auto'',
       parallel_tool_calls = True,
       reasoning = \<lparr> effort = reasoningEffort cfg \<rparr> \<rparr>"

definition text_content :: "string \<Rightarrow> tool_response" where
  "text_content body = \<lparr> content = [\<lparr> item_type = ''text'', item_text = body \<rparr>] \<rparr>"

definition handler_try :: "config \<Rightarrow> upstream \<Rightarrow> string \<Rightarrow> tool_response js" where
  "handler_try cfg openai inp s =
     (case responses_create openai (build_request cfg inp) s of
        (Inl error, s1) \<Rightarrow> (Inl error, s1)
      | (Inr response, s1) \<Rightarrow>
          (Inr (text_content (js_or (output_text response) ''No response text available.'')), s1))"

text \<open>
  The \<^verbatim>\<open>catch\<close> block. The case on \<open>JsError\<close> is the test
  \<^verbatim>\<open>error instanceof Error\<close> together with the read of \<^verbatim>\<open>error.message\<close>.
\<close>

definition handler_catch :: "js_value \<Rightarrow> tool_response js" where
  "handler_catch error s =
     (Inr (text_content (''Error: '' @
             (case error of JsError message \<Rightarrow> message | _ \<Rightarrow> ''Unknown error occurred''))),
      console_error [JsString ''Error calling OpenAI API:'', error] s)"

definition handler :: "config \<Rightarrow> upstream \<Rightarrow> string \<Rightarrow> tool_response js" where
  "handler cfg openai inp = try_catch (handler_try cfg openai inp) handler_catch"

section \<open>Tool registration\<close>

text \<open>
  The input schema is \<^verbatim>\<open>{ input: z.string().describe(...) }\<close>: the arguments must be an
  object whose \<^verbatim>\<open>input\<close> property is a string. The schema has no length constraint.
  The protocol library checks the arguments against the schema and calls the handler
  only when they pass; a call that does not pass is answered by the library.
\<close>

definition input_schema :: "js_value \<Rightarrow> string option" where
  "input_schema args =
     (case args of
        JsObject props \<Rightarrow>
          (case map_of props ''input'' of
             Some (JsString s) \<Rightarrow> Some s
           | _ \<Rightarrow> None)
      | _ \<Rightarrow> None)"

datatype call_result = InvalidParams | Rejected js_value | Result tool_response

definition call_tool :: "config \<Rightarrow> upstream \<Rightarrow> js_value \<Rightarrow> proc \<Rightarrow> call_result \<times> proc" where
  "call_tool cfg openai args s =
     (case input_schema args of
        None \<Rightarrow> (InvalidParams, s)
      | Some inp \<Rightarrow>
          (case handler cfg openai inp s of
             (Inl error, s1) \<Rightarrow> (Rejected error, s1)
           | (Inr r, s1) \<Rightarrow> (Result r, s1)))"

section \<open>The lifecycle manager\<close>

text \<open>
  A number inside a template literal: \<^verbatim>\<open>NaN\<close>, or the decimal digits of the integer
  with a minus sign when it is negative. \<open>decimal_digits\<close> puts the digits of \<open>n\<close>, the
  last one first, in front of those it has already produced.
\<close>

function decimal_digits :: "nat \<Rightarrow> string \<Rightarrow> string" where
  "decimal_digits n produced =
     (let produced' = char_of (of_char (CHR ''0'') + n mod 10) # produced
      in if n div 10 = 0 then produced' else decimal_digits (n div 10) produced')"
  by pat_completeness auto
termination
  by (relation "measure fst") auto

definition number_to_string :: "int option \<Rightarrow> string" where
  "number_to_string x =
     (case x of
        None \<Rightarrow> ''NaN''
      | Some i \<Rightarrow>
          (if i < 0 then CHR ''-'' # decimal_digits (nat (- i)) []
           else decimal_digits (nat i) []))"

definition clearTimeout :: "proc \<Rightarrow> proc" where
  "clearTimeout s = emit ClearTimeout (s\<lparr>timer_armed := False\<rparr>)"

definition setTimeout :: "int option \<Rightarrow> proc \<Rightarrow> proc" where
  "setTimeout delay s = emit (SetTimeout delay) (s\<lparr>timer_armed := True\<rparr>)"

definition process_exit :: "nat \<Rightarrow> proc \<Rightarrow> proc" where
  "process_exit code s = emit (ProcessExit code) (s\<lparr>exit_code := Some code\<rparr>)"

text \<open>
  \<^verbatim>\<open>transport.close()\<close> returns a promise; the call is recorded and the promise is
  awaited. It settles later, as an event of its own.
\<close>

definition transport_close :: "proc \<Rightarrow> proc" where
  "transport_close s = emit TransportClose (s\<lparr>pending_close := Suc (pending_close s)\<rparr>)"

datatype close_outcome = CloseResolves | CloseRejects js_value

text \<open>
  \<^verbatim>\<open>shutdown(signal)\<close> up to its \<^verbatim>\<open>await\<close>: these three statements run without
  interruption. \<open>shutdown_resume\<close> is the rest of the body, run when the awaited promise
  has settled.
\<close>

definition shutdown :: "string \<Rightarrow> proc \<Rightarrow> proc" where
  "shutdown signal s =
     transport_close
       (clearTimeout
         (console_log [JsString (''Received '' @ signal @ '', shutting down gracefully...'')] s))"

definition shutdown_resume :: "close_outcome \<Rightarrow> proc \<Rightarrow> proc" where
  "shutdown_resume r s =
     (case r of
        CloseResolves \<Rightarrow> process_exit 0 s
      | CloseRejects error \<Rightarrow>
          process_exit 1 (console_error [JsString ''Error during shutdown:'', error] s))"

text \<open>
  The six registrations of \<^verbatim>\<open>main\<close>: the timer callback, two signals, two events of
  standard input, and the two process-wide fault events. \<open>UnhandledRejection\<close> carries
  the reason and the promise.
\<close>

datatype trigger =
    ProcessTimeout
  | SIGTERM
  | SIGINT
  | StdinEnd
  | StdinError js_value
  | UncaughtException js_value
  | UnhandledRejection js_value js_value

text \<open>What a callback does before it calls \<^verbatim>\<open>shutdown\<close>, and the argument it passes.\<close>

fun announce :: "config \<Rightarrow> trigger \<Rightarrow> proc \<Rightarrow> proc" where
  "announce cfg ProcessTimeout s =
     console_log [JsString (''Process timeout after '' @ number_to_string (processTimeout cfg)
                            @ ''ms, shutting down...'')] s"
| "announce cfg SIGTERM s = s"
| "announce cfg SIGINT s = s"
| "announce cfg StdinEnd s = console_log [JsString ''Client disconnected, shutting down...''] s"
| "announce cfg (StdinError error) s = console_error [JsString ''Stdin error:'', error] s"
| "announce cfg (UncaughtException error) s =
     console_error [JsString ''Uncaught exception:'', error] s"
| "announce cfg (UnhandledRejection reason promise) s =
     console_error [JsString ''Unhandled rejection at:'', promise, JsString ''reason:'', reason] s"

fun reason_of :: "trigger \<Rightarrow> string" where
  "reason_of ProcessTimeout = ''timeout''"
| "reason_of SIGTERM = ''SIGTERM''"
| "reason_of SIGINT = ''SIGINT''"
| "reason_of StdinEnd = ''stdin end''"
| "reason_of (StdinError error) = ''stdin error''"
| "reason_of (UncaughtException error) = ''uncaught exception''"
| "reason_of (UnhandledRejection reason promise) = ''unhandled rejection''"

text \<open>
  The callback of a trigger. The timer is one-shot: when its callback runs it has fired
  and cannot fire again.
\<close>

definition fire :: "config \<Rightarrow> trigger \<Rightarrow> proc \<Rightarrow> proc" where
  "fire cfg t s =
     shutdown (reason_of t)
       (announce cfg t (if t = ProcessTimeout then s\<lparr>timer_armed := False\<rparr> else s))"

text \<open>
  One turn of the event loop once \<^verbatim>\<open>main\<close> has completed. Nothing runs after
  \<^verbatim>\<open>process.exit\<close>; the timer callback runs only while the timer is armed; a close
  settles only if one is awaited.
\<close>

datatype event = Trigger trigger | CloseSettled close_outcome

definition step :: "config \<Rightarrow> event \<Rightarrow> proc \<Rightarrow> proc" where
  "step cfg e s =
     (if exit_code s \<noteq> None then s
      else case e of
        Trigger t \<Rightarrow>
          (if t = ProcessTimeout \<and> \<not> timer_armed s then s else fire cfg t s)
      | CloseSettled r \<Rightarrow>
          (if pending_close s = 0 then s
           else shutdown_resume r (s\<lparr>pending_close := pending_close s - 1\<rparr>)))"

fun run :: "config \<Rightarrow> event list \<Rightarrow> proc \<Rightarrow> proc" where
  "run cfg [] s = s"
| "run cfg (e # es) s = run cfg es (step cfg e s)"

text \<open>
  Start of the process: the module is loaded, which reads the configuration and builds
  the client, and then \<^verbatim>\<open>main()\<close> is called. When the client constructor throws
  (it does when it is given no API key) the exception is uncaught with no listener
  registered, and the runtime ends the process with code 1. Otherwise \<^verbatim>\<open>main()\<close> runs;
  it rejects when \<^verbatim>\<open>server.connect\<close> does, and \<^verbatim>\<open>main().catch\<close> then logs and exits
  with code 1.
\<close>

datatype connect_outcome = ConnectResolves | ConnectRejects js_value

datatype startup = ClientThrows js_value | Connect connect_outcome

definition initial :: proc where
  "initial = \<lparr> timer_armed = False, pending_close = 0, exit_code = None, effects = [] \<rparr>"

definition main :: "config \<Rightarrow> connect_outcome \<Rightarrow> unit js" where
  "main cfg c s =
     (case c of
        ConnectRejects error \<Rightarrow> (Inl error, s)
      | ConnectResolves \<Rightarrow>
          (Inr (),
           setTimeout (processTimeout cfg)
             (console_log [JsString ''MCP Server running on stdio''] s)))"

definition start :: "env \<Rightarrow> startup \<Rightarrow> proc" where
  "start process_env st =
     (let (cfg, s0) = read_config process_env initial
      in case st of
           ClientThrows error \<Rightarrow> process_exit 1 s0
         | Connect c \<Rightarrow>
             (case main cfg c s0 of
                (Inr u, s) \<Rightarrow> s
              | (Inl error, s) \<Rightarrow>
                  process_exit 1 (console_error [JsString ''Fatal error in main():'', error] s)))"

text \<open>The configuration the process runs with, as a function of its environment.\<close>

definition config_of :: "env \<Rightarrow> config" where
  "config_of process_env = fst (read_config process_env initial)"

text \<open>The environment in which no variable is set.\<close>

definition unset_env :: env where
  "unset_env = Map.empty"

text \<open>An environment in which every variable is set.\<close>

definition example_env :: env where
  "example_env =
     map_of [(''OPENAI_API_KEY'', ''sk-test''),
             (''OPENAI_MAX_RETRIES'', ''5''),
             (''OPENAI_API_TIMEOUT'', ''1500''),
             (''SEARCH_CONTEXT_SIZE'', ''high''),
             (''REASONING_EFFORT'', ''low''),
             (''PROCESS_TIMEOUT'', ''90000'')]"



text \<open>Readings of the effect trace.\<close>

fun upstream_calls :: "effect list \<Rightarrow> request list" where
  "upstream_calls [] = []"
| "upstream_calls (UpstreamCall req # es) = req # upstream_calls es"
| "upstream_calls (e # es) = upstream_calls es"

fun env_reads :: "effect list \<Rightarrow> string list" where
  "env_reads [] = []"
| "env_reads (EnvRead name # es) = name # env_reads es"
| "env_reads (e # es) = env_reads es"

fun is_diagnostic :: "effect \<Rightarrow> bool" where
  "is_diagnostic (ConsoleLog args) = True"
| "is_diagnostic (ConsoleError args) = True"
| "is_diagnostic e = False"

text \<open>What the process does, its diagnostic lines left out.\<close>

definition behaviour :: "proc \<Rightarrow> bool \<times> nat \<times> nat option \<times> effect list" where
  "behaviour s =
     (timer_armed s, pending_close s, exit_code s,
      filter (\<lambda>e. \<not> is_diagnostic e) (effects s))"

text \<open>The number of times \<^verbatim>\<open>shutdown("timeout")\<close> has run, read off its log line.\<close>

definition timeout_shutdowns :: "proc \<Rightarrow> nat" where
  "timeout_shutdowns s =
     length (filter (\<lambda>e. e = ConsoleLog [JsString ''Received timeout, shutting down gracefully...''])
               (effects s))"

section \<open>Properties of the invocation handler\<close>

lemma handler_resolves:
  "openai (build_request cfg inp) = Resolves r \<Longrightarrow>
   handler cfg openai inp s =
     (Inr (text_content (js_or (output_text r) ''No response text available.'')),
      emit (UpstreamCall (build_request cfg inp)) s)"
  by (simp add: handler_def try_catch_def handler_try_def responses_create_def)

lemma handler_rejects:
  "openai (build_request cfg inp) = Rejects v \<Longrightarrow>
   handler cfg openai inp s =
     (Inr (text_content (''Error: '' @
             (case v of JsError message \<Rightarrow> message | _ \<Rightarrow> ''Unknown error occurred''))),
      console_error [JsString ''Error calling OpenAI API:'', v]
        (emit (UpstreamCall (build_request cfg inp)) s))"
  by (simp add: handler_def try_catch_def handler_try_def responses_create_def handler_catch_def)

lemma js_or_nonempty: "b \<noteq> [] \<Longrightarrow> js_or a b \<noteq> []"
  by (cases a) auto

lemma upstream_calls_append:
  "upstream_calls (xs @ ys) = upstream_calls xs @ upstream_calls ys"
  by (induction xs rule: upstream_calls.induct) simp_all

lemma env_reads_append: "env_reads (xs @ ys) = env_reads xs @ env_reads ys"
  by (induction xs rule: env_reads.induct) simp_all


text \<open>
  C1. However the upstream call settles, and for every input string, the handler
  returns (it does not throw: its result is \<open>Inr\<close>) one response whose content is a
  single item of type \<^verbatim>\<open>text\<close> with a non-empty body, and the process has not been
  ended by it. The fault of a rejected call is caught by the handler's own
  \<^verbatim>\<open>catch\<close>.
\<close>

theorem handler_returns_text:
  "\<exists>body s'. handler cfg openai inp s =
        (Inr \<lparr> content = [\<lparr> item_type = ''text'', item_text = body \<rparr>] \<rparr>, s')
      \<and> body \<noteq> [] \<and> exit_code s' = exit_code s"
proof (cases "openai (build_request cfg inp)")
  case (Resolves r)
  have "js_or (output_text r) ''No response text available.'' \<noteq> []"
    by (rule js_or_nonempty) simp
  with Resolves show ?thesis
    by (simp add: handler_resolves text_content_def emit_def)
next
  case (Rejects v)
  then show ?thesis
    by (simp add: handler_rejects text_content_def emit_def console_error_def)
qed








text \<open>
  C7. One invocation of the handler adds exactly one upstream call to the trace,
  whether the call resolves or rejects, and its request is: model \<^verbatim>\<open>o3\<close>, the input
  string, one \<^verbatim>\<open>web_search_preview\<close> tool with the configured context size, tool
  choice \<^verbatim>\<open>auto\<close>, parallel tool calls allowed, and the configured reasoning effort.
\<close>

theorem one_upstream_call:
  "upstream_calls (effects (snd (handler cfg openai inp s)))
     = upstream_calls (effects s) @
       [\<lparr> model = ''o3'',
          input = inp,
          tools = [\<lparr> tool_type = ''web_search_preview'',
                     search_context_size = searchContextSize cfg \<rparr>],
          tool_choice = ''auto'',
          parallel_tool_calls = True,
          reasoning = \<lparr> effort = reasoningEffort cfg \<rparr> \<rparr>]"
  by (cases "openai (build_request cfg inp)")
     (simp_all add: handler_resolves handler_rejects emit_def console_error_def
        upstream_calls_append build_request_def)


section \<open>Properties of the lifecycle manager\<close>

lemma shutdown_effects:
  "effects (shutdown r s) =
     effects s @ [ConsoleLog [JsString (''Received '' @ r @ '', shutting down gracefully...'')],
                  ClearTimeout, TransportClose]"
  by (simp add: shutdown_def transport_close_def clearTimeout_def console_log_def emit_def)

lemma shutdown_fields:
  "timer_armed (shutdown r s) = False"
  "pending_close (shutdown r s) = Suc (pending_close s)"
  "exit_code (shutdown r s) = exit_code s"
  by (simp_all add: shutdown_def transport_close_def clearTimeout_def console_log_def emit_def)

lemma announce_fields:
  "timer_armed (announce cfg t s) = timer_armed s"
  "pending_close (announce cfg t s) = pending_close s"
  "exit_code (announce cfg t s) = exit_code s"
  by (cases t; simp add: console_log_def console_error_def emit_def)+

lemma announce_effects:
  "\<exists>line. effects (announce cfg t s) = effects s @ line \<and> filter (\<lambda>e. \<not> is_diagnostic e) line = []"
  by (cases t) (simp_all add: console_log_def console_error_def emit_def)

lemma fire_effects:
  "effects (fire cfg t s) =
     effects (announce cfg t s) @
       [ConsoleLog [JsString (''Received '' @ reason_of t @ '', shutting down gracefully...'')],
        ClearTimeout, TransportClose]"
  by (cases t)
     (simp_all add: fire_def shutdown_effects console_log_def console_error_def emit_def)

lemma behaviour_shutdown:
  "behaviour (shutdown r s) =
     (False, Suc (pending_close s), exit_code s,
      filter (\<lambda>e. \<not> is_diagnostic e) (effects s) @ [ClearTimeout, TransportClose])"
  by (simp add: behaviour_def shutdown_effects shutdown_fields)

lemma behaviour_fire:
  "behaviour (fire cfg t s) =
     (False, Suc (pending_close s), exit_code s,
      filter (\<lambda>e. \<not> is_diagnostic e) (effects s) @ [ClearTimeout, TransportClose])"
proof -
  let ?s = "if t = ProcessTimeout then s\<lparr>timer_armed := False\<rparr> else s"
  obtain line where l: "effects (announce cfg t ?s) = effects ?s @ line"
    "filter (\<lambda>e. \<not> is_diagnostic e) line = []"
    using announce_effects by blast
  show ?thesis
    by (simp add: fire_def behaviour_shutdown announce_fields l)
qed

lemma behaviour_resume:
  "behaviour (shutdown_resume r s) =
     (timer_armed s, pending_close s, Some (case r of CloseResolves \<Rightarrow> 0 | CloseRejects error \<Rightarrow> 1),
      filter (\<lambda>e. \<not> is_diagnostic e) (effects s) @
        [ProcessExit (case r of CloseResolves \<Rightarrow> 0 | CloseRejects error \<Rightarrow> 1)])"
  by (cases r)
     (simp_all add: behaviour_def shutdown_resume_def process_exit_def console_error_def emit_def)

lemma behaviour_step:
  assumes "behaviour s1 = behaviour s2"
  shows "behaviour (step cfg e s1) = behaviour (step cfg e s2)"
proof -
  from assms have eq: "timer_armed s1 = timer_armed s2" "pending_close s1 = pending_close s2"
    "exit_code s1 = exit_code s2"
    "filter (\<lambda>e. \<not> is_diagnostic e) (effects s1) = filter (\<lambda>e. \<not> is_diagnostic e) (effects s2)"
    by (simp_all add: behaviour_def)
  show ?thesis
  proof (cases e)
    case (Trigger t)
    then show ?thesis using assms eq by (simp add: step_def behaviour_fire)
  next
    case (CloseSettled r)
    then show ?thesis using assms eq
      by (simp add: step_def behaviour_resume)
  qed
qed

lemma behaviour_run:
  "behaviour s1 = behaviour s2 \<Longrightarrow> behaviour (run cfg es s1) = behaviour (run cfg es s2)"
proof (induction es arbitrary: s1 s2)
  case Nil
  then show ?case by simp
next
  case (Cons e es)
  have "behaviour (step cfg e s1) = behaviour (step cfg e s2)"
    using Cons.prems by (rule behaviour_step)
  then have "behaviour (run cfg es (step cfg e s1)) = behaviour (run cfg es (step cfg e s2))"
    by (rule Cons.IH)
  then show ?case by simp
qed

lemma timer_stays_disarmed:
  assumes "\<not> timer_armed s"
  shows "\<not> timer_armed (step cfg e s) \<and> timeout_shutdowns (step cfg e s) = timeout_shutdowns s"
proof (cases e)
  case (Trigger t)
  show ?thesis
  proof (cases t)
    case ProcessTimeout
    with Trigger assms show ?thesis by (simp add: step_def)
  qed (use Trigger assms in \<open>simp_all add: step_def fire_def shutdown_fields
        timeout_shutdowns_def shutdown_effects console_log_def console_error_def emit_def\<close>)
next
  case (CloseSettled r)
  with assms show ?thesis
    by (cases r) (simp_all add: step_def shutdown_resume_def process_exit_def console_error_def
          emit_def timeout_shutdowns_def)
qed

lemma timer_stays_disarmed_run:
  "\<not> timer_armed s \<Longrightarrow>
   \<not> timer_armed (run cfg es s) \<and> timeout_shutdowns (run cfg es s) = timeout_shutdowns s"
proof (induction es arbitrary: s)
  case Nil
  then show ?case by simp
next
  case (Cons e es)
  from Cons.prems have st: "\<not> timer_armed (step cfg e s)"
    "timeout_shutdowns (step cfg e s) = timeout_shutdowns s"
    using timer_stays_disarmed by blast+
  from Cons.IH [OF st(1)] st(2) show ?case by simp
qed

lemma fire_disarms: "\<not> timer_armed (fire cfg t s)"
  by (simp add: fire_def shutdown_fields)

lemma fire_new_effects:
  "filter (\<lambda>e. \<not> is_diagnostic e) (drop (length (effects s)) (effects (fire cfg t s)))
     = [ClearTimeout, TransportClose]"
  by (cases t)
     (simp_all add: fire_def shutdown_effects console_log_def console_error_def emit_def)

text \<open>
  C5. For each of the six triggers, in any state: of what its callback does up to the
  \<^verbatim>\<open>await\<close>, diagnostic lines aside, disarming the timer comes first and starting
  the close of the transport second. From then on, whatever events follow, the timer
  is not armed, the timer callback does not run, and the number of
  \<^verbatim>\<open>shutdown("timeout")\<close> invocations does not grow.
\<close>

theorem timer_disarmed_first:
  "filter (\<lambda>e. \<not> is_diagnostic e) (drop (length (effects s)) (effects (fire cfg t s)))
     = [ClearTimeout, TransportClose]
   \<and> \<not> timer_armed (fire cfg t s)
   \<and> \<not> timer_armed (run cfg es (fire cfg t s))
   \<and> step cfg (Trigger ProcessTimeout) (run cfg es (fire cfg t s)) = run cfg es (fire cfg t s)
   \<and> timeout_shutdowns (run cfg es (fire cfg t s)) = timeout_shutdowns (fire cfg t s)"
  using fire_new_effects [of s cfg t] fire_disarms [of cfg t s]
    timer_stays_disarmed_run [OF fire_disarms, of cfg es cfg t s]
  by (simp add: step_def)

lemma terminated_step: "exit_code s = Some c \<Longrightarrow> step cfg e s = s"
  by (simp add: step_def)

lemma terminated_run: "exit_code s = Some c \<Longrightarrow> run cfg es s = s"
  by (induction es) (simp_all add: terminated_step)

lemma read_config_state:
  "snd (read_config process_env s) =
     s\<lparr>effects := effects s @
        [EnvRead ''OPENAI_API_KEY'', EnvRead ''OPENAI_MAX_RETRIES'',
         EnvRead ''OPENAI_API_TIMEOUT'', EnvRead ''SEARCH_CONTEXT_SIZE'',
         EnvRead ''REASONING_EFFORT'', EnvRead ''PROCESS_TIMEOUT'']\<rparr>"
  by (simp add: read_config_def env_get_def emit_def)

lemma read_config_value:
  "fst (read_config process_env s) =
     \<lparr> apiKey = process_env ''OPENAI_API_KEY'',
       maxRetries = parseInt (js_or (process_env ''OPENAI_MAX_RETRIES'') ''3''),
       timeout = parseInt (js_or (process_env ''OPENAI_API_TIMEOUT'') ''60000''),
       searchContextSize = js_or (process_env ''SEARCH_CONTEXT_SIZE'') ''medium'',
       reasoningEffort = js_or (process_env ''REASONING_EFFORT'') ''medium'',
       processTimeout = parseInt (js_or (process_env ''PROCESS_TIMEOUT'') ''300000'') \<rparr>"
  by (simp add: read_config_def env_get_def)

lemma start_unfold:
  "start process_env st =
     (case st of
        ClientThrows error \<Rightarrow> process_exit 1 (snd (read_config process_env initial))
      | Connect c \<Rightarrow>
          (case main (config_of process_env) c (snd (read_config process_env initial)) of
             (Inr u, s) \<Rightarrow> s
           | (Inl error, s) \<Rightarrow>
               process_exit 1 (console_error [JsString ''Fatal error in main():'', error] s)))"
  by (simp add: start_def config_of_def split_beta split: startup.splits)

lemma start_running:
  "start process_env (Connect ConnectResolves) =
     \<lparr> timer_armed = True, pending_close = 0, exit_code = None,
       effects =
         [EnvRead ''OPENAI_API_KEY'', EnvRead ''OPENAI_MAX_RETRIES'',
          EnvRead ''OPENAI_API_TIMEOUT'', EnvRead ''SEARCH_CONTEXT_SIZE'',
          EnvRead ''REASONING_EFFORT'', EnvRead ''PROCESS_TIMEOUT'',
          ConsoleLog [JsString ''MCP Server running on stdio''],
          SetTimeout (processTimeout (config_of process_env))] \<rparr>"
  by (simp add: start_unfold main_def read_config_state initial_def setTimeout_def
        console_log_def emit_def)

lemma start_connect_rejects:
  "start process_env (Connect (ConnectRejects error)) =
     \<lparr> timer_armed = False, pending_close = 0, exit_code = Some 1,
       effects =
         [EnvRead ''OPENAI_API_KEY'', EnvRead ''OPENAI_MAX_RETRIES'',
          EnvRead ''OPENAI_API_TIMEOUT'', EnvRead ''SEARCH_CONTEXT_SIZE'',
          EnvRead ''REASONING_EFFORT'', EnvRead ''PROCESS_TIMEOUT'',
          ConsoleError [JsString ''Fatal error in main():'', error],
          ProcessExit 1] \<rparr>"
  by (simp add: start_unfold main_def read_config_state initial_def process_exit_def
        console_error_def emit_def)

lemma start_client_throws:
  "start process_env (ClientThrows error) =
     \<lparr> timer_armed = False, pending_close = 0, exit_code = Some 1,
       effects =
         [EnvRead ''OPENAI_API_KEY'', EnvRead ''OPENAI_MAX_RETRIES'',
          EnvRead ''OPENAI_API_TIMEOUT'', EnvRead ''SEARCH_CONTEXT_SIZE'',
          EnvRead ''REASONING_EFFORT'', EnvRead ''PROCESS_TIMEOUT'',
          ProcessExit 1] \<rparr>"
  by (simp add: start_unfold read_config_state initial_def process_exit_def emit_def)

lemma close_settles:
  assumes "exit_code s = None" and "0 < pending_close s"
  shows "exit_code (step cfg (CloseSettled r) s)
           = Some (case r of CloseResolves \<Rightarrow> 0 | CloseRejects error \<Rightarrow> 1)"
  using assms
  by (cases r) (simp_all add: step_def shutdown_resume_def process_exit_def console_error_def
        emit_def)

text \<open>
  C6. In a process that is alive and awaits a close of its transport: when the close
  resolves the exit code is 0, when it rejects the exit code is 1, and later events
  do not change it. A start in which \<^verbatim>\<open>server.connect\<close> rejects, or in which the
  client constructor throws before \<^verbatim>\<open>main()\<close> is called, ends with exit code 1 and
  never calls \<^verbatim>\<open>transport.close()\<close>.
\<close>

theorem exit_codes:
  assumes "exit_code s = None" and "0 < pending_close s"
  shows "exit_code (step cfg (CloseSettled CloseResolves) s) = Some 0
       \<and> exit_code (run cfg es (step cfg (CloseSettled CloseResolves) s)) = Some 0
       \<and> exit_code (step cfg (CloseSettled (CloseRejects error)) s) = Some 1
       \<and> exit_code (run cfg es (step cfg (CloseSettled (CloseRejects error)) s)) = Some 1
       \<and> exit_code (start process_env (Connect (ConnectRejects error))) = Some 1
       \<and> exit_code (start process_env (ClientThrows error)) = Some 1
       \<and> TransportClose \<notin> set (effects (start process_env (Connect (ConnectRejects error))))
       \<and> TransportClose \<notin> set (effects (start process_env (ClientThrows error)))"
proof -
  have ok: "exit_code (step cfg (CloseSettled CloseResolves) s) = Some 0"
    using close_settles [OF assms, of cfg CloseResolves] by simp
  have bad: "exit_code (step cfg (CloseSettled (CloseRejects error)) s) = Some 1"
    using close_settles [OF assms, of cfg "CloseRejects error"] by simp
  show ?thesis
    using ok bad terminated_run [OF ok, of cfg es] terminated_run [OF bad, of cfg es]
    by (simp add: start_connect_rejects start_client_throws)
qed

theorem exit_codes_witness:
  "exit_code (run (config_of unset_env) [Trigger SIGTERM, CloseSettled CloseResolves]
                (start unset_env (Connect ConnectResolves))) = Some 0
   \<and> exit_code (run (config_of unset_env) [Trigger ProcessTimeout, CloseSettled CloseResolves]
                (start unset_env (Connect ConnectResolves))) = Some 0
   \<and> exit_code (run (config_of unset_env)
                  [Trigger StdinEnd, CloseSettled (CloseRejects (JsError ''close failed''))]
                (start unset_env (Connect ConnectResolves))) = Some 1
   \<and> exit_code (start unset_env (Connect (ConnectRejects (JsError ''connect failed'')))) = Some 1"
proof -
  let ?cfg = "config_of unset_env"
  let ?s0 = "start unset_env (Connect ConnectResolves)"
  have a: "exit_code (step ?cfg (Trigger t) ?s0) = None" for t
    by (simp add: step_def start_running fire_def shutdown_fields announce_fields)
  have b: "0 < pending_close (step ?cfg (Trigger t) ?s0)" for t
    by (simp add: step_def start_running fire_def shutdown_fields announce_fields)
  show ?thesis
    using exit_codes [OF a [of SIGTERM] b [of SIGTERM], where es = "[]"
          and error = "JsError ''connect failed''" and process_env = unset_env]
      exit_codes [OF a [of ProcessTimeout] b [of ProcessTimeout], where es = "[]"
          and error = "JsError ''close failed''" and process_env = unset_env]
      exit_codes [OF a [of StdinEnd] b [of StdinEnd], where es = "[]"
          and error = "JsError ''close failed''" and process_env = unset_env]
    by simp
qed

text \<open>
  C8. The callback of every trigger ends with the three effects of the one shutdown
  routine, called with that trigger's reason. Diagnostic lines aside, the callbacks of
  any two triggers, and the routine with any two reasons, leave the process in the
  same state and keep doing so through every later event, up to and including the
  exit code. The reason appears in the log line of the routine and nowhere else.
\<close>

theorem one_shutdown_routine:
  "effects (fire cfg t s) =
     effects (announce cfg t s) @
       [ConsoleLog [JsString (''Received '' @ reason_of t @ '', shutting down gracefully...'')],
        ClearTimeout, TransportClose]
   \<and> effects (shutdown r s) =
       effects s @ [ConsoleLog [JsString (''Received '' @ r @ '', shutting down gracefully...'')],
                    ClearTimeout, TransportClose]
   \<and> behaviour (fire cfg t s) = behaviour (shutdown r s)
   \<and> behaviour (fire cfg t s) = behaviour (fire cfg t' s)
   \<and> behaviour (shutdown r s) = behaviour (shutdown r' s)
   \<and> behaviour (run cfg es (shutdown r s)) = behaviour (run cfg es (shutdown r' s))
   \<and> behaviour (run cfg es (fire cfg t s)) = behaviour (run cfg es (fire cfg t' s))"
proof -
  have a: "behaviour (shutdown r s) = behaviour (shutdown r' s)"
    by (simp add: behaviour_shutdown)
  have b: "behaviour (fire cfg t s) = behaviour (fire cfg t' s)"
    by (simp add: behaviour_fire)
  have c: "behaviour (fire cfg t s) = behaviour (shutdown r s)"
    by (simp add: behaviour_fire behaviour_shutdown)
  show ?thesis
    using a b c behaviour_run [OF a] behaviour_run [OF b]
    by (simp add: shutdown_effects fire_effects)
qed

section \<open>Properties of the configuration\<close>

lemma parse_defaults:
  "parseInt ''3'' = Some 3" "parseInt ''60000'' = Some 60000" "parseInt ''300000'' = Some 300000"
  by (simp_all add: parseInt_def is_white_space_def strip_hex_prefix_def parse_radix_def
        digit_value_def)

lemma env_reads_step: "env_reads (effects (step cfg e s)) = env_reads (effects s)"
proof (cases e)
  case (Trigger t)
  then show ?thesis
    by (cases t)
       (simp_all add: step_def fire_def shutdown_effects env_reads_append console_log_def
          console_error_def emit_def)
next
  case (CloseSettled r)
  then show ?thesis
    by (cases r)
       (simp_all add: step_def shutdown_resume_def process_exit_def console_error_def emit_def
          env_reads_append)
qed

lemma env_reads_run: "env_reads (effects (run cfg es s)) = env_reads (effects s)"
  by (induction es arbitrary: s) (simp_all add: env_reads_step)

lemma env_reads_handler:
  "env_reads (effects (snd (handler cfg openai inp s))) = env_reads (effects s)"
  by (cases "openai (build_request cfg inp)")
     (simp_all add: handler_resolves handler_rejects emit_def console_error_def env_reads_append)

lemma env_reads_call_tool:
  "env_reads (effects (snd (call_tool cfg openai args s))) = env_reads (effects s)"
proof (cases "input_schema args")
  case None
  then show ?thesis by (simp add: call_tool_def)
next
  case (Some inp)
  obtain res s1 where h: "handler cfg openai inp s = (res, s1)"
    by (cases "handler cfg openai inp s")
  with Some show ?thesis
    using env_reads_handler [of cfg openai inp s]
    by (cases res) (simp_all add: call_tool_def)
qed

lemma parse_examples:
  "parseInt ''5'' = Some 5" "parseInt ''1500'' = Some 1500" "parseInt ''90000'' = Some 90000"
  by (simp_all add: parseInt_def is_white_space_def strip_hex_prefix_def parse_radix_def
        digit_value_def)

text \<open>
  C9. The configuration is taken from the environment. A variable that is unset gives
  its default: 3 retries, an API timeout of 60000, context size and reasoning effort
  \<^verbatim>\<open>medium\<close>, a process timeout of 300000. A variable that is set to a non-empty
  string gives that string, read as an integer by \<^verbatim>\<open>parseInt\<close> for the three numeric
  settings, and the API key is the variable as it is. The six variables are each read
  once while the process starts, in every way a start can go, and neither the event
  loop nor a tool call reads the environment again.
\<close>

theorem config_defaults:
  "(process_env ''OPENAI_MAX_RETRIES'' = None \<longrightarrow> maxRetries (config_of process_env) = Some 3)
   \<and> (process_env ''OPENAI_API_TIMEOUT'' = None \<longrightarrow> timeout (config_of process_env) = Some 60000)
   \<and> (process_env ''SEARCH_CONTEXT_SIZE'' = None \<longrightarrow>
        searchContextSize (config_of process_env) = ''medium'')
   \<and> (process_env ''REASONING_EFFORT'' = None \<longrightarrow>
        reasoningEffort (config_of process_env) = ''medium'')
   \<and> (process_env ''PROCESS_TIMEOUT'' = None \<longrightarrow>
        processTimeout (config_of process_env) = Some 300000)
   \<and> env_reads (effects (start process_env st)) =
        [''OPENAI_API_KEY'', ''OPENAI_MAX_RETRIES'', ''OPENAI_API_TIMEOUT'',
         ''SEARCH_CONTEXT_SIZE'', ''REASONING_EFFORT'', ''PROCESS_TIMEOUT'']
   \<and> env_reads (effects (run cfg es s)) = env_reads (effects s)
   \<and> env_reads (effects (snd (call_tool cfg openai args s))) = env_reads (effects s)
   \<and> apiKey (config_of process_env) = process_env ''OPENAI_API_KEY''
   \<and> (\<forall>v. process_env ''OPENAI_MAX_RETRIES'' = Some v \<and> v \<noteq> [] \<longrightarrow>
         maxRetries (config_of process_env) = parseInt v)
   \<and> (\<forall>v. process_env ''OPENAI_API_TIMEOUT'' = Some v \<and> v \<noteq> [] \<longrightarrow>
         timeout (config_of process_env) = parseInt v)
   \<and> (\<forall>v. process_env ''SEARCH_CONTEXT_SIZE'' = Some v \<and> v \<noteq> [] \<longrightarrow>
         searchContextSize (config_of process_env) = v)
   \<and> (\<forall>v. process_env ''REASONING_EFFORT'' = Some v \<and> v \<noteq> [] \<longrightarrow>
         reasoningEffort (config_of process_env) = v)
   \<and> (\<forall>v. process_env ''PROCESS_TIMEOUT'' = Some v \<and> v \<noteq> [] \<longrightarrow>
         processTimeout (config_of process_env) = parseInt v)
   \<and> parseInt ''5'' = Some 5 \<and> parseInt ''1500'' = Some 1500 \<and> parseInt ''90000'' = Some 90000
   \<and> SetTimeout (processTimeout (config_of process_env))
        \<in> set (effects (start process_env (Connect ConnectResolves)))"
proof -
  have reads: "env_reads (effects (start process_env st)) =
        [''OPENAI_API_KEY'', ''OPENAI_MAX_RETRIES'', ''OPENAI_API_TIMEOUT'',
         ''SEARCH_CONTEXT_SIZE'', ''REASONING_EFFORT'', ''PROCESS_TIMEOUT'']"
  proof (cases st)
    case (ClientThrows error)
    then show ?thesis by (simp add: start_client_throws)
  next
    case (Connect c)
    then show ?thesis
      by (cases c) (simp_all add: start_running start_connect_rejects)
  qed
  have unset: "(process_env ''OPENAI_MAX_RETRIES'' = None \<longrightarrow> maxRetries (config_of process_env) = Some 3)
   \<and> (process_env ''OPENAI_API_TIMEOUT'' = None \<longrightarrow> timeout (config_of process_env) = Some 60000)
   \<and> (process_env ''SEARCH_CONTEXT_SIZE'' = None \<longrightarrow>
        searchContextSize (config_of process_env) = ''medium'')
   \<and> (process_env ''REASONING_EFFORT'' = None \<longrightarrow>
        reasoningEffort (config_of process_env) = ''medium'')
   \<and> (process_env ''PROCESS_TIMEOUT'' = None \<longrightarrow>
        processTimeout (config_of process_env) = Some 300000)"
    by (simp add: config_of_def read_config_value parse_defaults)
  have given: "apiKey (config_of process_env) = process_env ''OPENAI_API_KEY''
   \<and> (\<forall>v. process_env ''OPENAI_MAX_RETRIES'' = Some v \<and> v \<noteq> [] \<longrightarrow>
         maxRetries (config_of process_env) = parseInt v)
   \<and> (\<forall>v. process_env ''OPENAI_API_TIMEOUT'' = Some v \<and> v \<noteq> [] \<longrightarrow>
         timeout (config_of process_env) = parseInt v)
   \<and> (\<forall>v. process_env ''SEARCH_CONTEXT_SIZE'' = Some v \<and> v \<noteq> [] \<longrightarrow>
         searchContextSize (config_of process_env) = v)
   \<and> (\<forall>v. process_env ''REASONING_EFFORT'' = Some v \<and> v \<noteq> [] \<longrightarrow>
         reasoningEffort (config_of process_env) = v)
   \<and> (\<forall>v. process_env ''PROCESS_TIMEOUT'' = Some v \<and> v \<noteq> [] \<longrightarrow>
         processTimeout (config_of process_env) = parseInt v)"
    by (simp add: config_of_def read_config_value)
  have timer: "SetTimeout (processTimeout (config_of process_env))
        \<in> set (effects (start process_env (Connect ConnectResolves)))"
    by (simp add: start_running)
  show ?thesis
    using reads unset given timer
    by (simp add: parse_examples env_reads_run env_reads_call_tool)
qed

theorem config_defaults_witness:
  "config_of unset_env =
     \<lparr> apiKey = None, maxRetries = Some 3, timeout = Some 60000,
       searchContextSize = ''medium'', reasoningEffort = ''medium'',
       processTimeout = Some 300000 \<rparr>
   \<and> config_of example_env =
     \<lparr> apiKey = Some ''sk-test'', maxRetries = Some 5, timeout = Some 1500,
       searchContextSize = ''high'', reasoningEffort = ''low'',
       processTimeout = Some 90000 \<rparr>"
proof -
  have u: "unset_env name = None" for name by (simp add: unset_env_def)
  have e: "example_env ''OPENAI_API_KEY'' = Some ''sk-test''"
    "example_env ''OPENAI_MAX_RETRIES'' = Some ''5''"
    "example_env ''OPENAI_API_TIMEOUT'' = Some ''1500''"
    "example_env ''SEARCH_CONTEXT_SIZE'' = Some ''high''"
    "example_env ''REASONING_EFFORT'' = Some ''low''"
    "example_env ''PROCESS_TIMEOUT'' = Some ''90000''"
    by (simp_all add: example_env_def)
  have a: "config_of unset_env =
     \<lparr> apiKey = None, maxRetries = Some 3, timeout = Some 60000,
       searchContextSize = ''medium'', reasoningEffort = ''medium'',
       processTimeout = Some 300000 \<rparr>"
    using config_defaults [of unset_env] u
    by (cases "config_of unset_env") simp
  have b: "config_of example_env =
     \<lparr> apiKey = Some ''sk-test'', maxRetries = Some 5, timeout = Some 1500,
       searchContextSize = ''high'', reasoningEffort = ''low'',
       processTimeout = Some 90000 \<rparr>"
    using config_defaults [of example_env] e
    by (cases "config_of example_env") simp
  show ?thesis using a b by simp
qed

end
